theory Spec2Isabelle
  imports Main
begin

section \<open>Data model (src/app/(tabs)/index.tsx, lines 24-51)\<close>

text \<open>
  \<^verbatim>\<open>SequenceStep\<close> is a struct with fields \<^verbatim>\<open>time\<close>, \<^verbatim>\<open>label?\<close> and \<^verbatim>\<open>id\<close>;
  \<^verbatim>\<open>LoopItem\<close> is the union of \<^verbatim>\<open>SequenceStep\<close> and \<^verbatim>\<open>SequenceLoop\<close>, discriminated
  by the \<^verbatim>\<open>type\<close> tag. The field \<^verbatim>\<open>id\<close> is written \<open>sid\<close> for a step and \<open>lid\<close> for a
  loop, because \<open>id\<close> is the identity function of HOL. The numbers \<^verbatim>\<open>time\<close> and
  \<^verbatim>\<open>repetitions\<close> are integer-valued (they come from \<^verbatim>\<open>parseInt\<close>) and are modelled as
  \<open>int\<close>; an optional field is an \<open>option\<close>.
\<close>

record SequenceStep =
  time :: int
  label :: "string option"
  sid :: string

datatype LoopItem =
    Step SequenceStep
  | Loop (lid: string) (repetitions: int) (children: "LoopItem list")
         (llabel: "string option")

text \<open>The field access \<^verbatim>\<open>item.id\<close>, defined for both variants.\<close>

fun item_id :: "LoopItem \<Rightarrow> string" where
  "item_id (Step s) = sid s"
| "item_id (Loop i r c l) = i"

text \<open>
  JavaScript truthiness of a value of type \<^verbatim>\<open>string | null\<close>: \<^verbatim>\<open>null\<close> and the empty
  string are falsy.
\<close>

definition truthy :: "string option \<Rightarrow> bool" where
  "truthy v = (case v of None \<Rightarrow> False | Some s \<Rightarrow> s \<noteq> [])"

section \<open>The flattener (lines 166-181)\<close>

text \<open>
  \<^verbatim>\<open>processItems(items, repetitions)\<close> runs its body \<^verbatim>\<open>repetitions\<close> times (the loop
  \<^verbatim>\<open>for (let i = 0; i < repetitions; i++)\<close> makes \<open>nat repetitions\<close> rounds, none when the
  count is zero or negative); each round visits the items in order, pushing a step and
  recursing into a loop with the loop's own count. The model returns the entries pushed
  onto \<^verbatim>\<open>result\<close>, in the order they are pushed.
\<close>

fun processItems :: "LoopItem list \<Rightarrow> int \<Rightarrow> SequenceStep list" where
  "processItems items reps =
     concat (replicate (nat reps)
       (concat (map (\<lambda>item. case item of
                        Step s \<Rightarrow> [s]
                      | Loop i r c l \<Rightarrow> processItems c r)
                    items)))"

declare processItems.simps [simp del]

definition flattenSequence :: "LoopItem list \<Rightarrow> SequenceStep list" where
  "flattenSequence items = processItems items 1"

section \<open>Tree editing (lines 187-232, 254-265)\<close>

text \<open>
  \<^verbatim>\<open>parentExists\<close> walks the items in order and returns at the first item whose id is
  \<^verbatim>\<open>parentId\<close> (whatever its type), or at the first loop whose children contain one.
\<close>

fun parentExists :: "LoopItem list \<Rightarrow> string \<Rightarrow> bool" where
  "parentExists [] parentId = False"
| "parentExists (item # rest) parentId =
     (if item_id item = parentId then True
      else if (case item of
                 Loop i r c l \<Rightarrow> parentExists c parentId
               | Step s \<Rightarrow> False) then True
      else parentExists rest parentId)"

text \<open>
  \<^verbatim>\<open>updateItems\<close>, the local function of \<^verbatim>\<open>addStepToParent\<close>: a loop whose id is
  \<^verbatim>\<open>parentId\<close> gets the item appended to its children (and is not searched further), any
  other loop is rebuilt with its children updated, a step is returned as it is.
\<close>

fun updateItems :: "string \<Rightarrow> LoopItem \<Rightarrow> LoopItem list \<Rightarrow> LoopItem list" where
  "updateItems parentId item items =
     map (\<lambda>i. case i of
             Loop j r c l \<Rightarrow>
               (if j = parentId then Loop j r (c @ [item]) l
                else Loop j r (updateItems parentId item c) l)
           | Step s \<Rightarrow> i)
         items"

declare updateItems.simps [simp del]

definition addStepToParent ::
  "string option \<Rightarrow> LoopItem \<Rightarrow> LoopItem list \<Rightarrow> LoopItem list" where
  "addStepToParent parentId item prev =
     (if \<not> truthy parentId then prev @ [item]
      else updateItems (the parentId) item prev)"

text \<open>
  \<^verbatim>\<open>removeFromItems\<close>, the local function of \<^verbatim>\<open>removeItem\<close>: filter out the items
  whose id is the target, then rebuild every remaining loop with its children cleaned.
\<close>

fun removeFromItems :: "string \<Rightarrow> LoopItem list \<Rightarrow> LoopItem list" where
  "removeFromItems tid items =
     map (\<lambda>item. case item of
                Loop i r c l \<Rightarrow> Loop i r (removeFromItems tid c) l
              | Step s \<Rightarrow> item)
         (filter (\<lambda>item. item_id item \<noteq> tid) items)"

declare removeFromItems.simps [simp del]

section \<open>\<^verbatim>\<open>parseInt\<close> and the digit filter of the text inputs\<close>

text \<open>
  The builtin \<^verbatim>\<open>parseInt(s)\<close> without a radix, for strings of ASCII characters: leading
  white space is skipped, one sign is read, the prefix \<^verbatim>\<open>0x\<close>/\<^verbatim>\<open>0X\<close> selects radix 16,
  and the longest run of digits of the radix is the value; \<open>None\<close> is \<^verbatim>\<open>NaN\<close> (no digit).
  Values are exact integers (the rounding of numbers beyond \<open>2^53\<close> is not modelled).
\<close>

definition isWhiteSpace :: "char \<Rightarrow> bool" where
  "isWhiteSpace c = (c \<in> set [CHR 0x09, CHR 0x0A, CHR 0x0B, CHR 0x0C, CHR 0x0D, CHR 0x20])"

definition digitValue :: "nat \<Rightarrow> char \<Rightarrow> nat option" where
  "digitValue R c =
     (let n = (of_char c :: nat);
          v = (if 48 \<le> n \<and> n \<le> 57 then Some (n - 48)
               else if 97 \<le> n \<and> n \<le> 122 then Some (n - 87)
               else if 65 \<le> n \<and> n \<le> 90 then Some (n - 55)
               else None)
      in case v of None \<Rightarrow> None | Some d \<Rightarrow> if d < R then Some d else None)"

definition parseInt :: "string \<Rightarrow> int option" where
  "parseInt str =
     (let S = dropWhile isWhiteSpace str;
          sign = (case S of c # cs \<Rightarrow> if c = CHR ''-'' then (- 1 :: int) else 1 | [] \<Rightarrow> 1);
          S1 = (case S of c # cs \<Rightarrow> if c = CHR ''-'' \<or> c = CHR ''+'' then cs else S | [] \<Rightarrow> S);
          hex = (case S1 of a # b # cs \<Rightarrow> a = CHR ''0'' \<and> (b = CHR ''x'' \<or> b = CHR ''X'')
                 | _ \<Rightarrow> False);
          R = (if hex then 16 else 10 :: nat);
          S2 = (if hex then drop 2 S1 else S1);
          Z = takeWhile (\<lambda>c. digitValue R c \<noteq> None) S2
      in if Z = [] then None
         else Some (sign * int (foldl (\<lambda>acc c. acc * R + the (digitValue R c)) 0 Z)))"

text \<open>\<^verbatim>\<open>parseInt(s) || d\<close>: \<^verbatim>\<open>NaN\<close> and \<open>0\<close> are falsy.\<close>

definition parseIntOr :: "string \<Rightarrow> int \<Rightarrow> int" where
  "parseIntOr s d = (case parseInt s of None \<Rightarrow> d | Some n \<Rightarrow> if n = 0 then d else n)"

text \<open>\<^verbatim>\<open>text.replace(/[^0-9]/g, "")\<close>, the \<^verbatim>\<open>onChangeText\<close> filter of the inputs.\<close>

definition digitsOnly :: "string \<Rightarrow> string" where
  "digitsOnly text = filter (\<lambda>c. digitValue 10 c \<noteq> None) text"

section \<open>Screen state and handlers (lines 82-96, 160-164, 183-273, 362-388)\<close>

text \<open>
  The \<^verbatim>\<open>useState\<close> cells of \<^verbatim>\<open>HomeScreen\<close> that the editor and the playback handlers
  read or write (the cells of the save dialog and the sound handle are left out: no
  handler below reads them). A handler is a function from the state before the event to
  the state after it; the audio cue (\<^verbatim>\<open>playBeep\<close>, which catches its own errors) is an
  effect returned beside the state.
\<close>

record HomeScreen =
  minutes :: string
  seconds :: string
  isTimerPlaying :: bool
  currentStepIndex :: nat
  resetKey :: nat
  items :: "LoopItem list"
  flattenedSequence :: "SequenceStep list"
  isLoopModalVisible :: bool
  loopRepetitions :: string
  currentParentId :: "string option"

definition initialState :: HomeScreen where
  "initialState =
     \<lparr>minutes = [], seconds = [], isTimerPlaying = False, currentStepIndex = 0,
      resetKey = 0, items = [], flattenedSequence = [], isLoopModalVisible = False,
      loopRepetitions = ''1'', currentParentId = None\<rparr>"

datatype effect = PlayBeep

record completeResult =
  shouldRepeat :: bool
  delay :: "nat option"

definition resetTimer :: "HomeScreen \<Rightarrow> HomeScreen" where
  "resetTimer st =
     st\<lparr>currentStepIndex := 0, isTimerPlaying := False, resetKey := resetKey st + 1\<rparr>"

text \<open>The \<^verbatim>\<open>useEffect\<close> that recomputes the flattened list from the items.\<close>

definition flattenEffect :: "HomeScreen \<Rightarrow> HomeScreen" where
  "flattenEffect st = st\<lparr>flattenedSequence := flattenSequence (items st)\<rparr>"

text \<open>\<^verbatim>\<open>addLoop(repetitions)\<close>; \<open>now\<close> is \<^verbatim>\<open>Date.now().toString()\<close>.\<close>

definition addLoop :: "int \<Rightarrow> string \<Rightarrow> HomeScreen \<Rightarrow> HomeScreen" where
  "addLoop reps now st =
     (let newLoop = Loop now reps [] None
      in st\<lparr>items :=
              (if truthy (currentParentId st)
                  \<and> \<not> parentExists (items st) (the (currentParentId st))
               then items st @ [newLoop]
               else addStepToParent (currentParentId st) newLoop (items st)),
            isLoopModalVisible := False,
            loopRepetitions := ''1''\<rparr>)"

text \<open>\<^verbatim>\<open>addStep()\<close>; \<open>now\<close> is \<^verbatim>\<open>Date.now().toString()\<close>.\<close>

definition totalTime :: "HomeScreen \<Rightarrow> int" where
  "totalTime st = parseIntOr (minutes st) 0 * 60 + parseIntOr (seconds st) 0"

definition addStep :: "string \<Rightarrow> HomeScreen \<Rightarrow> HomeScreen" where
  "addStep now st =
     (if totalTime st > 0 then
        (let newStep = Step \<lparr>time = totalTime st, label = None, sid = now\<rparr>
         in st\<lparr>items :=
                 (if truthy (currentParentId st)
                     \<and> \<not> parentExists (items st) (the (currentParentId st))
                  then items st @ [newStep]
                  else addStepToParent (currentParentId st) newStep (items st)),
               minutes := [],
               seconds := []\<rparr>)
      else st)"

definition removeItem :: "string \<Rightarrow> HomeScreen \<Rightarrow> HomeScreen" where
  "removeItem tid st =
     (let newItems = removeFromItems tid (items st)
      in st\<lparr>items := newItems,
            currentParentId :=
              (if currentParentId st = Some tid
                  \<or> (truthy (currentParentId st)
                      \<and> \<not> parentExists newItems (the (currentParentId st)))
               then None
               else currentParentId st)\<rparr>)"

definition openLoopModal :: "HomeScreen \<Rightarrow> HomeScreen" where
  "openLoopModal st =
     (if truthy (currentParentId st)
         \<and> \<not> parentExists (items st) (the (currentParentId st))
      then st\<lparr>currentParentId := None, isLoopModalVisible := True\<rparr>
      else st\<lparr>isLoopModalVisible := True\<rparr>)"

definition startSequence :: "HomeScreen \<Rightarrow> HomeScreen \<times> effect list" where
  "startSequence st =
     (if length (flattenedSequence st) = 0 then (st, [])
      else (st\<lparr>currentStepIndex := 0, isTimerPlaying := True\<rparr>, [PlayBeep]))"

text \<open>
  \<^verbatim>\<open>handleComplete\<close>, the \<^verbatim>\<open>onComplete\<close> callback of the countdown widget. The
  comparison \<^verbatim>\<open>currentStepIndex < flattenedSequence.length - 1\<close> is made on integers
  (the right-hand side is \<open>-1\<close> for the empty list).
\<close>

definition handleComplete :: "HomeScreen \<Rightarrow> HomeScreen \<times> effect list \<times> completeResult" where
  "handleComplete st =
     (if int (currentStepIndex st) < int (length (flattenedSequence st)) - 1
      then (st\<lparr>currentStepIndex := currentStepIndex st + 1\<rparr>, [PlayBeep],
            \<lparr>shouldRepeat = True, delay = Some 0\<rparr>)
      else (resetTimer st, [], \<lparr>shouldRepeat = False, delay = None\<rparr>))"

text \<open>The Pause button: \<^verbatim>\<open>onPress={() => setIsTimerPlaying(false)}\<close>.\<close>

definition pausePressed :: "HomeScreen \<Rightarrow> HomeScreen" where
  "pausePressed st = st\<lparr>isTimerPlaying := False\<rparr>"

section \<open>Events of the screen\<close>

text \<open>
  One constructor per user or timer event that reaches a handler above. The string of
  \<open>PressAdd\<close> and \<open>PressCreateLoop\<close> is the value of \<^verbatim>\<open>Date.now().toString()\<close> at the
  press. \<open>ItemsChanged\<close> is the run of the flattening \<^verbatim>\<open>useEffect\<close>. Handlers are
  applied whatever the \<^verbatim>\<open>disabled\<close> flags of the buttons say, so the runs below include
  every run of the screen.
\<close>

datatype event =
    ChangeMinutes string
  | ChangeSeconds string
  | PressAdd string
  | PressAddLoop
  | ChangeLoopRepetitions string
  | PressCreateLoop string
  | PressAddToLoop string
  | PressRemove string
  | ItemsChanged
  | PressStart
  | PressPause
  | PressReset
  | TimerComplete

fun dispatch :: "event \<Rightarrow> HomeScreen \<Rightarrow> HomeScreen" where
  "dispatch (ChangeMinutes text) st = st\<lparr>minutes := digitsOnly text\<rparr>"
| "dispatch (ChangeSeconds text) st = st\<lparr>seconds := digitsOnly text\<rparr>"
| "dispatch (PressAdd now) st = addStep now st"
| "dispatch PressAddLoop st = openLoopModal st"
| "dispatch (ChangeLoopRepetitions text) st = st\<lparr>loopRepetitions := digitsOnly text\<rparr>"
| "dispatch (PressCreateLoop now) st = addLoop (parseIntOr (loopRepetitions st) 1) now st"
| "dispatch (PressAddToLoop i) st = st\<lparr>currentParentId := Some i\<rparr>"
| "dispatch (PressRemove i) st = removeItem i st"
| "dispatch ItemsChanged st = flattenEffect st"
| "dispatch PressStart st = fst (startSequence st)"
| "dispatch PressPause st = pausePressed st"
| "dispatch PressReset st = resetTimer st"
| "dispatch TimerComplete st = fst (handleComplete st)"

fun run :: "event list \<Rightarrow> HomeScreen \<Rightarrow> HomeScreen" where
  "run [] st = st"
| "run (e # es) st = run es (dispatch e st)"

fun isRemoval :: "event \<Rightarrow> bool" where
  "isRemoval (PressRemove i) = True"
| "isRemoval e = False"

section \<open>Loading the working sequence (lines 283-307)\<close>

text \<open>
  A parsed JSON value; an object is a finite map from keys to values, and a number is
  an integer (the loader never computes with one). \<open>Throws\<close> is a call that raises (a
  rejected promise, a \<^verbatim>\<open>SyntaxError\<close>, a \<^verbatim>\<open>TypeError\<close>).
\<close>

datatype json =
    JNull
  | JBool bool
  | JNum int
  | JStr string
  | JArr "json list"
  | JObj "string \<Rightarrow> json option"

datatype 'a outcome = Throws | Returns 'a

text \<open>
  \<^verbatim>\<open>parsed.items\<close>: a \<^verbatim>\<open>TypeError\<close> on \<^verbatim>\<open>null\<close>, the own property of an object,
  \<^verbatim>\<open>undefined\<close> (\<open>None\<close>) on every other value.
\<close>

fun getItems :: "json \<Rightarrow> json option outcome" where
  "getItems JNull = Throws"
| "getItems (JObj m) = Returns (m ''items'')"
| "getItems v = Returns None"

text \<open>
  \<^verbatim>\<open>parsed.map(f)\<close>: only an array has a callable \<^verbatim>\<open>map\<close>; on any other value the call
  raises a \<^verbatim>\<open>TypeError\<close>.
\<close>

fun callMap :: "json \<Rightarrow> (json \<Rightarrow> json) \<Rightarrow> json list outcome" where
  "callMap (JArr xs) f = Returns (map f xs)"
| "callMap v f = Throws"

text \<open>Decimal digits of an array or string index, the key under which a spread copies it.\<close>

fun showNat :: "nat \<Rightarrow> string" where
  "showNat n =
     (if n < 10 then [char_of (48 + n)]
      else showNat (n div 10) @ [char_of (48 + n mod 10)])"

declare showNat.simps [simp del]

text \<open>The own enumerable properties that \<^verbatim>\<open>...step\<close> copies.\<close>

fun ownProps :: "json \<Rightarrow> (string \<Rightarrow> json option)" where
  "ownProps (JObj m) = m"
| "ownProps (JArr xs) = map_of (zip (map showNat [0..<length xs]) xs)"
| "ownProps (JStr s) = map_of (zip (map showNat [0..<length s]) (map (\<lambda>c. JStr [c]) s))"
| "ownProps v = Map.empty"

text \<open>The callback \<^verbatim>\<open>(step) => ({ type: "step", ...step })\<close>.\<close>

definition tagStep :: "json \<Rightarrow> json" where
  "tagStep step = JObj ([''type'' \<mapsto> JStr ''step''] ++ ownProps step)"

text \<open>
  What \<^verbatim>\<open>loadSequence\<close> calls: \<^verbatim>\<open>setItems\<close> with a list of values, or the alert of the
  \<^verbatim>\<open>catch\<close> block.
\<close>

datatype loadCall = SetItems "json list" | AlertLoadError

text \<open>
  \<^verbatim>\<open>loadSequence\<close>. \<open>getItemResult\<close> is the outcome of
  \<^verbatim>\<open>AsyncStorage.getItem("@current_sequence")\<close> and \<open>parseResult\<close> the outcome of
  \<^verbatim>\<open>JSON.parse(jsonValue)\<close>; the result is the list of calls made, empty when nothing is
  stored.
\<close>

definition loadSequence :: "string option outcome \<Rightarrow> json outcome \<Rightarrow> loadCall list" where
  "loadSequence getItemResult parseResult =
     (case getItemResult of
        Throws \<Rightarrow> [AlertLoadError]
      | Returns jsonValue \<Rightarrow>
          if truthy jsonValue then
            (case parseResult of
               Throws \<Rightarrow> [AlertLoadError]
             | Returns parsed \<Rightarrow>
                 (case getItems parsed of
                    Throws \<Rightarrow> [AlertLoadError]
                  | Returns (Some (JArr xs)) \<Rightarrow> [SetItems xs]
                  | Returns other \<Rightarrow>
                      (case callMap parsed tagStep of
                         Throws \<Rightarrow> [AlertLoadError]
                       | Returns ys \<Rightarrow> [SetItems ys])))
          else [])"

section \<open>Predicates used to state the properties\<close>

text \<open>The ids of all units of a tree, at every depth, in pre-order.\<close>

fun unitIds :: "LoopItem list \<Rightarrow> string list" where
  "unitIds [] = []"
| "unitIds (Step s # T) = sid s # unitIds T"
| "unitIds (Loop i r c l # T) = i # unitIds c @ unitIds T"

text \<open>The ids of the loops of a tree, at every depth.\<close>

fun loopIds :: "LoopItem list \<Rightarrow> string list" where
  "loopIds [] = []"
| "loopIds (Step s # T) = loopIds T"
| "loopIds (Loop i r c l # T) = i # loopIds c @ loopIds T"

text \<open>
  \<open>hasDescendant T x p\<close>: some loop of \<open>T\<close> with id \<open>x\<close> has a unit with id \<open>p\<close> below it.
\<close>

fun hasDescendant :: "LoopItem list \<Rightarrow> string \<Rightarrow> string \<Rightarrow> bool" where
  "hasDescendant [] x p = False"
| "hasDescendant (Step s # T) x p = hasDescendant T x p"
| "hasDescendant (Loop i r c l # T) x p =
     ((i = x \<and> p \<in> set (unitIds c)) \<or> hasDescendant c x p \<or> hasDescendant T x p)"

text \<open>The index invariant of the playback state.\<close>

definition indexInRange :: "HomeScreen \<Rightarrow> bool" where
  "indexInRange st =
     (if flattenedSequence st = [] then currentStepIndex st = 0
      else currentStepIndex st < length (flattenedSequence st))"

text \<open>
  The invariant carried through a run: the index is in range, and the flattened list the
  playback reads is no longer than the flattening of the current items.
\<close>

definition playbackInv :: "HomeScreen \<Rightarrow> bool" where
  "playbackInv st =
     (indexInRange st
      \<and> length (flattenedSequence st) \<le> length (flattenSequence (items st)))"

text \<open>
  Runs in which the flattening \<^verbatim>\<open>useEffect\<close> follows every event, as it does on the
  screen after each change of the items. \<open>keepsIndex e st\<close> is the condition on a
  removal pressed in state \<open>st\<close>: the index is \<open>0\<close>, or it is below the length of the
  flattened list of the items that remain. \<open>admissible evs st\<close>: every removal of the run
  \<open>evs\<close> from \<open>st\<close> meets that condition in the state where it is pressed.
\<close>

fun keepsIndex :: "event \<Rightarrow> HomeScreen \<Rightarrow> bool" where
  "keepsIndex (PressRemove x) st =
     (currentStepIndex st = 0
      \<or> currentStepIndex st < length (flattenSequence (removeFromItems x (items st))))"
| "keepsIndex e st = True"

fun runEffects :: "event list \<Rightarrow> HomeScreen \<Rightarrow> HomeScreen" where
  "runEffects [] st = st"
| "runEffects (e # es) st = runEffects es (flattenEffect (dispatch e st))"

fun admissible :: "event list \<Rightarrow> HomeScreen \<Rightarrow> bool" where
  "admissible [] st = True"
| "admissible (e # es) st = (keepsIndex e st \<and> admissible es (flattenEffect (dispatch e st)))"

section \<open>The flattener: equations and length\<close>

lemma processItems_as_flatten:
  "processItems c r = concat (replicate (nat r) (flattenSequence c))"
  by (simp add: flattenSequence_def processItems.simps [of c r] processItems.simps [of c 1])

lemma flattenSequence_Nil: "flattenSequence [] = []"
  by (simp add: flattenSequence_def processItems.simps [of "[]"])

lemma flattenSequence_Cons:
  "flattenSequence (u # T) =
     (case u of Step s \<Rightarrow> [s]
      | Loop i r c l \<Rightarrow> concat (replicate (nat r) (flattenSequence c))) @ flattenSequence T"
proof -
  have "flattenSequence (u # T) =
          (case u of Step s \<Rightarrow> [s] | Loop i r c l \<Rightarrow> processItems c r) @ flattenSequence T"
    by (simp add: flattenSequence_def processItems.simps [of "u # T" 1]
          processItems.simps [of T 1])
  then show ?thesis
    by (simp add: processItems_as_flatten split: LoopItem.splits)
qed

lemma length_concat_replicate: "length (concat (replicate n xs)) = n * length xs"
  by (induction n) simp_all

lemma length_flattenSequence:
  "length (flattenSequence T) =
     (\<Sum>u\<leftarrow>T. case u of Step s \<Rightarrow> 1
                 | Loop i r c l \<Rightarrow> nat r * length (flattenSequence c))"
  by (induction T)
     (simp_all add: flattenSequence_Nil flattenSequence_Cons length_concat_replicate
        split: LoopItem.splits)

text \<open>
  C5. Flattening emits one entry per step and, for a loop with count \<open>r\<close>, the flattened
  children \<open>r\<close> times in a row, followed by the rest of the list; so the length of the
  flattened list is the sum over the units of 1 for a step and of the count times the
  length of the flattened children for a loop. A count of zero and an empty loop emit
  nothing. The tree \<open>[Step 30, Loop 2 [Step 10, Step 5]]\<close> flattens to the durations
  \<open>[30, 10, 5, 10, 5]\<close>. (The number of rounds is \<open>nat r\<close>, which is \<open>r\<close> for every count
  \<open>r \<ge> 0\<close>; a negative count makes no round.)
\<close>

theorem flattenSequence_expands_loops:
  "flattenSequence [] = []
   \<and> flattenSequence (Step s # T) = s # flattenSequence T
   \<and> flattenSequence (Loop i r c l # T)
       = concat (replicate (nat r) (flattenSequence c)) @ flattenSequence T
   \<and> length (flattenSequence T)
       = (\<Sum>u\<leftarrow>T. case u of Step s \<Rightarrow> 1
                   | Loop i r c l \<Rightarrow> nat r * length (flattenSequence c))
   \<and> (0 \<le> r \<longrightarrow> int (length (flattenSequence [Loop i r c l]))
                     = r * int (length (flattenSequence c)))
   \<and> flattenSequence [Loop i 0 c l] = []
   \<and> flattenSequence [Loop i r [] l] = []
   \<and> map time (flattenSequence
         [Step \<lparr>time = 30, label = None, sid = ''a''\<rparr>,
          Loop ''l'' 2 [Step \<lparr>time = 10, label = None, sid = ''b''\<rparr>,
                        Step \<lparr>time = 5, label = None, sid = ''c''\<rparr>] None])
       = [30, 10, 5, 10, 5]"
proof -
  have ex: "map time (flattenSequence
         [Step \<lparr>time = 30, label = None, sid = ''a''\<rparr>,
          Loop ''l'' 2 [Step \<lparr>time = 10, label = None, sid = ''b''\<rparr>,
                        Step \<lparr>time = 5, label = None, sid = ''c''\<rparr>] None])
       = [30, 10, 5, 10, 5]"
    by (simp add: flattenSequence_Nil flattenSequence_Cons eval_nat_numeral)
  have len: "length (flattenSequence T)
       = (\<Sum>u\<leftarrow>T. case u of Step s \<Rightarrow> 1
                   | Loop i r c l \<Rightarrow> nat r * length (flattenSequence c))"
    by (rule length_flattenSequence)
  have nonneg: "0 \<le> r \<longrightarrow> int (length (flattenSequence [Loop i r c l]))
                     = r * int (length (flattenSequence c))"
    by (simp add: flattenSequence_Nil flattenSequence_Cons length_concat_replicate)
  show ?thesis
    using ex len nonneg
    by (simp add: flattenSequence_Nil flattenSequence_Cons)
qed

theorem flattenSequence_expands_loops_witness:
  "(0::int) \<le> 2
   \<and> int (length (flattenSequence
        [Loop ''l'' 2 [Step \<lparr>time = 10, label = None, sid = ''b''\<rparr>,
                      Step \<lparr>time = 5, label = None, sid = ''c''\<rparr>] None])) = 4
   \<and> flattenSequence
        [Step \<lparr>time = 10, label = None, sid = ''b''\<rparr>,
         Step \<lparr>time = 5, label = None, sid = ''c''\<rparr>]
       = [\<lparr>time = 10, label = None, sid = ''b''\<rparr>, \<lparr>time = 5, label = None, sid = ''c''\<rparr>]"
  using flattenSequence_expands_loops
    [of "\<lparr>time = 10, label = None, sid = ''b''\<rparr>"
        "[Step \<lparr>time = 5, label = None, sid = ''c''\<rparr>]"
        "''l''" 2
        "[Step \<lparr>time = 10, label = None, sid = ''b''\<rparr>,
          Step \<lparr>time = 5, label = None, sid = ''c''\<rparr>]" None]
    flattenSequence_expands_loops
    [of "\<lparr>time = 5, label = None, sid = ''c''\<rparr>" "[]" "''l''" 2 "[]" None]
  by simp

section \<open>Playback: the step-complete event\<close>

text \<open>
  C4. With a flattened list of length \<open>L > 0\<close> and the machine running at index \<open>i\<close>, the
  step-complete event does this: if \<open>i < L - 1\<close> the index becomes \<open>i + 1\<close> and nothing else
  of the state changes (so the machine is still running), the audio cue is triggered and
  the callback answers that the countdown is to repeat; if \<open>i = L - 1\<close> the index becomes
  \<open>0\<close>, the machine stops running and the countdown is not repeated.
\<close>

theorem handleComplete_step_complete:
  assumes "0 < length (flattenedSequence st)" and "isTimerPlaying st"
  shows "(currentStepIndex st < length (flattenedSequence st) - 1 \<longrightarrow>
            handleComplete st =
              (st\<lparr>currentStepIndex := currentStepIndex st + 1\<rparr>, [PlayBeep],
               \<lparr>shouldRepeat = True, delay = Some 0\<rparr>)
            \<and> isTimerPlaying (fst (handleComplete st)))
       \<and> (currentStepIndex st = length (flattenedSequence st) - 1 \<longrightarrow>
            currentStepIndex (fst (handleComplete st)) = 0
            \<and> \<not> isTimerPlaying (fst (handleComplete st))
            \<and> \<not> shouldRepeat (snd (snd (handleComplete st))))"
  using assms by (auto simp: handleComplete_def resetTimer_def)

theorem handleComplete_step_complete_witness:
  "0 < length (flattenedSequence
         (fst (startSequence (initialState\<lparr>flattenedSequence :=
            [\<lparr>time = 30, label = None, sid = ''a''\<rparr>,
             \<lparr>time = 10, label = None, sid = ''b''\<rparr>,
             \<lparr>time = 5, label = None, sid = ''c''\<rparr>]\<rparr>))))
   \<and> isTimerPlaying
         (fst (startSequence (initialState\<lparr>flattenedSequence :=
            [\<lparr>time = 30, label = None, sid = ''a''\<rparr>,
             \<lparr>time = 10, label = None, sid = ''b''\<rparr>,
             \<lparr>time = 5, label = None, sid = ''c''\<rparr>]\<rparr>)))
   \<and> currentStepIndex (fst (handleComplete
         (fst (startSequence (initialState\<lparr>flattenedSequence :=
            [\<lparr>time = 30, label = None, sid = ''a''\<rparr>,
             \<lparr>time = 10, label = None, sid = ''b''\<rparr>,
             \<lparr>time = 5, label = None, sid = ''c''\<rparr>]\<rparr>))))) = 1
   \<and> isTimerPlaying (fst (handleComplete
         (fst (startSequence (initialState\<lparr>flattenedSequence :=
            [\<lparr>time = 30, label = None, sid = ''a''\<rparr>,
             \<lparr>time = 10, label = None, sid = ''b''\<rparr>,
             \<lparr>time = 5, label = None, sid = ''c''\<rparr>]\<rparr>)))))
   \<and> fst (snd (handleComplete
         (fst (startSequence (initialState\<lparr>flattenedSequence :=
            [\<lparr>time = 30, label = None, sid = ''a''\<rparr>,
             \<lparr>time = 10, label = None, sid = ''b''\<rparr>,
             \<lparr>time = 5, label = None, sid = ''c''\<rparr>]\<rparr>))))) = [PlayBeep]
   \<and> currentStepIndex (fst (handleComplete
         (initialState\<lparr>flattenedSequence :=
            [\<lparr>time = 30, label = None, sid = ''a''\<rparr>,
             \<lparr>time = 10, label = None, sid = ''b''\<rparr>,
             \<lparr>time = 5, label = None, sid = ''c''\<rparr>],
            isTimerPlaying := True, currentStepIndex := 2\<rparr>))) = 0
   \<and> \<not> isTimerPlaying (fst (handleComplete
         (initialState\<lparr>flattenedSequence :=
            [\<lparr>time = 30, label = None, sid = ''a''\<rparr>,
             \<lparr>time = 10, label = None, sid = ''b''\<rparr>,
             \<lparr>time = 5, label = None, sid = ''c''\<rparr>],
            isTimerPlaying := True, currentStepIndex := 2\<rparr>)))"
  using handleComplete_step_complete
    [of "(fst (startSequence (initialState\<lparr>flattenedSequence :=
            [\<lparr>time = 30, label = None, sid = ''a''\<rparr>,
             \<lparr>time = 10, label = None, sid = ''b''\<rparr>,
             \<lparr>time = 5, label = None, sid = ''c''\<rparr>]\<rparr>)))"]
    handleComplete_step_complete
    [of "(initialState\<lparr>flattenedSequence :=
            [\<lparr>time = 30, label = None, sid = ''a''\<rparr>,
             \<lparr>time = 10, label = None, sid = ''b''\<rparr>,
             \<lparr>time = 5, label = None, sid = ''c''\<rparr>],
            isTimerPlaying := True, currentStepIndex := 2\<rparr>)"]
  by (simp add: startSequence_def initialState_def)

text \<open>
  C10. When the step-complete event fires on the last step of a non-empty flattened
  list, the new state is the state that the reset command produces from the same state:
  the reset token \<open>resetKey\<close> is incremented, the index is \<open>0\<close> and the machine is not
  running.
\<close>

theorem handleComplete_last_step_is_reset:
  assumes "flattenedSequence st \<noteq> []"
    and "currentStepIndex st = length (flattenedSequence st) - 1"
  shows "fst (handleComplete st) = resetTimer st
         \<and> resetKey (fst (handleComplete st)) = resetKey st + 1
         \<and> currentStepIndex (fst (handleComplete st)) = 0
         \<and> \<not> isTimerPlaying (fst (handleComplete st))"
  using assms by (auto simp: handleComplete_def resetTimer_def)

theorem handleComplete_last_step_is_reset_witness:
  "flattenedSequence (initialState\<lparr>flattenedSequence :=
            [\<lparr>time = 30, label = None, sid = ''a''\<rparr>,
             \<lparr>time = 10, label = None, sid = ''b''\<rparr>],
            isTimerPlaying := True, currentStepIndex := 1, resetKey := 4\<rparr>) \<noteq> []
   \<and> fst (handleComplete (initialState\<lparr>flattenedSequence :=
            [\<lparr>time = 30, label = None, sid = ''a''\<rparr>,
             \<lparr>time = 10, label = None, sid = ''b''\<rparr>],
            isTimerPlaying := True, currentStepIndex := 1, resetKey := 4\<rparr>))
       = initialState\<lparr>flattenedSequence :=
            [\<lparr>time = 30, label = None, sid = ''a''\<rparr>,
             \<lparr>time = 10, label = None, sid = ''b''\<rparr>],
            isTimerPlaying := False, currentStepIndex := 0, resetKey := 5\<rparr>"
  using handleComplete_last_step_is_reset
    [of "(initialState\<lparr>flattenedSequence :=
            [\<lparr>time = 30, label = None, sid = ''a''\<rparr>,
             \<lparr>time = 10, label = None, sid = ''b''\<rparr>],
            isTimerPlaying := True, currentStepIndex := 1, resetKey := 4\<rparr>)"]
  by (simp add: resetTimer_def initialState_def)

section \<open>Tree editing: equations and ids\<close>

lemma removeFromItems_Nil: "removeFromItems x [] = []"
  by (simp add: removeFromItems.simps [of x "[]"])

lemma removeFromItems_Cons:
  "removeFromItems x (u # T) =
     (if item_id u = x then removeFromItems x T
      else (case u of Loop i r c l \<Rightarrow> Loop i r (removeFromItems x c) l | Step s \<Rightarrow> u)
           # removeFromItems x T)"
  by (simp add: removeFromItems.simps [of x "u # T"] removeFromItems.simps [of x T])

lemma updateItems_Nil: "updateItems p v [] = []"
  by (simp add: updateItems.simps [of p v "[]"])

lemma updateItems_Cons:
  "updateItems p v (u # T) =
     (case u of
        Loop j r c l \<Rightarrow> (if j = p then Loop j r (c @ [v]) l else Loop j r (updateItems p v c) l)
      | Step s \<Rightarrow> u) # updateItems p v T"
  by (simp add: updateItems.simps [of p v "u # T"] updateItems.simps [of p v T])

text \<open>\<^verbatim>\<open>parentExists\<close> is true exactly when some unit, step or loop, has the id.\<close>

lemma parentExists_iff: "parentExists T p \<longleftrightarrow> p \<in> set (unitIds T)"
  by (induction T rule: unitIds.induct) auto

lemma remove_absent: "x \<notin> set (unitIds T) \<Longrightarrow> removeFromItems x T = T"
  by (induction T rule: unitIds.induct) (auto simp: removeFromItems_Nil removeFromItems_Cons)

lemma unitIds_remove_subset: "set (unitIds (removeFromItems x T)) \<subseteq> set (unitIds T)"
  by (induction T rule: unitIds.induct) (auto simp: removeFromItems_Nil removeFromItems_Cons)

lemma unitIds_remove_absent: "x \<notin> set (unitIds (removeFromItems x T))"
  by (induction T rule: unitIds.induct) (auto simp: removeFromItems_Nil removeFromItems_Cons)

lemma remove_idem: "removeFromItems x (removeFromItems x T) = removeFromItems x T"
  by (rule remove_absent) (rule unitIds_remove_absent)

text \<open>Without a loop of that id, \<^verbatim>\<open>updateItems\<close> rebuilds the tree as it was.\<close>

lemma update_no_loop: "p \<notin> set (loopIds T) \<Longrightarrow> updateItems p v T = T"
  by (induction T rule: loopIds.induct) (auto simp: updateItems_Nil updateItems_Cons)

lemma hasDescendant_unitIds: "hasDescendant T x p \<Longrightarrow> p \<in> set (unitIds T)"
  by (induction T rule: unitIds.induct) auto

lemma remove_ancestor:
  "distinct (unitIds T) \<Longrightarrow> hasDescendant T x p \<Longrightarrow> p \<notin> set (unitIds (removeFromItems x T))"
proof (induction T rule: unitIds.induct)
  case 1
  then show ?case by simp
next
  case (2 s T)
  then show ?case
    using unitIds_remove_subset [of x T] hasDescendant_unitIds [of T x p]
    by (auto simp: removeFromItems_Cons)
next
  case (3 i r c l T)
  then show ?case
    using unitIds_remove_subset [of x T] unitIds_remove_subset [of x c]
      hasDescendant_unitIds [of T x p] hasDescendant_unitIds [of c x p]
    by (auto simp: removeFromItems_Cons)
qed

lemma remove_other:
  "p \<in> set (unitIds T) \<Longrightarrow> p \<noteq> x \<Longrightarrow> \<not> hasDescendant T x p
     \<Longrightarrow> p \<in> set (unitIds (removeFromItems x T))"
  by (induction T rule: unitIds.induct) (auto simp: removeFromItems_Nil removeFromItems_Cons)

lemmas eval_defs = initialState_def addStep_def addLoop_def totalTime_def parseIntOr_def
  parseInt_def digitValue_def isWhiteSpace_def digitsOnly_def truthy_def addStepToParent_def
  updateItems_Nil updateItems_Cons flattenEffect_def flattenSequence_Nil flattenSequence_Cons
  startSequence_def handleComplete_def pausePressed_def removeItem_def removeFromItems_Nil
  removeFromItems_Cons indexInRange_def resetTimer_def

section \<open>Inserting a unit\<close>

text \<open>
  The insertion of \<^verbatim>\<open>addStep\<close> and \<^verbatim>\<open>addLoop\<close> where it does append: with no parent
  selected, and with a selected id that no unit of the tree has, the unit goes to the end
  of the top level; with the id of a loop, \<^verbatim>\<open>updateItems\<close> puts it into that loop.
\<close>

lemma addLoop_no_parent:
  "currentParentId st = None \<Longrightarrow>
     items (addLoop r now st) = items st @ [Loop now r [] None]"
  by (simp add: addLoop_def truthy_def addStepToParent_def)

lemma addLoop_unknown_parent:
  "currentParentId st = Some p \<Longrightarrow> p \<notin> set (unitIds (items st)) \<Longrightarrow>
     items (addLoop r now st) = items st @ [Loop now r [] None]"
  by (cases "p = []") (simp_all add: addLoop_def truthy_def addStepToParent_def parentExists_iff)

lemma addStep_no_parent:
  "currentParentId st = None \<Longrightarrow> 0 < totalTime st \<Longrightarrow>
     items (addStep now st)
       = items st @ [Step \<lparr>time = totalTime st, label = None, sid = now\<rparr>]"
  by (simp add: addStep_def truthy_def addStepToParent_def)

lemma addStep_unknown_parent:
  "currentParentId st = Some p \<Longrightarrow> p \<notin> set (unitIds (items st)) \<Longrightarrow> 0 < totalTime st \<Longrightarrow>
     items (addStep now st)
       = items st @ [Step \<lparr>time = totalTime st, label = None, sid = now\<rparr>]"
  by (cases "p = []") (simp_all add: addStep_def truthy_def addStepToParent_def parentExists_iff)

text \<open>
  With a selected id that a unit has but no loop has (the id of a step), the insertion
  leaves the tree as it was: \<^verbatim>\<open>parentExists\<close> accepts the id, and \<^verbatim>\<open>updateItems\<close> finds
  no loop to append to.
\<close>

lemma insert_step_id_unchanged:
  "currentParentId st = Some p \<Longrightarrow> p \<in> set (unitIds (items st))
     \<Longrightarrow> p \<notin> set (loopIds (items st)) \<Longrightarrow> p \<noteq> []
     \<Longrightarrow> items (addLoop r now st) = items st
         \<and> items (addStep now st) = items st"
  by (simp add: addLoop_def addStep_def truthy_def addStepToParent_def parentExists_iff
      update_no_loop)

text \<open>
  C1. The claim: an insert whose parent id resolves to no loop appends the unit to the
  top level, also when the id is that of a step, and never drops the unit. Evaluated on
  the tree \<open>[Step a]\<close> with the selected parent id \<open>a\<close>: \<^verbatim>\<open>addStep\<close> (1 minute 30 seconds)
  and \<^verbatim>\<open>addLoop\<close> both leave the tree \<open>[Step a]\<close>; the new unit is dropped.
\<close>

theorem insert_into_step_id_drops_unit:
  "items (addStep ''t2'' (initialState\<lparr>items :=
         [Step \<lparr>time = 10, label = None, sid = ''a''\<rparr>],
         currentParentId := Some ''a'', minutes := ''1'', seconds := ''30''\<rparr>))
     = [Step \<lparr>time = 10, label = None, sid = ''a''\<rparr>]
   \<and> items (addLoop 2 ''t2'' (initialState\<lparr>items :=
         [Step \<lparr>time = 10, label = None, sid = ''a''\<rparr>],
         currentParentId := Some ''a'', minutes := ''1'', seconds := ''30''\<rparr>))
     = [Step \<lparr>time = 10, label = None, sid = ''a''\<rparr>]
   \<and> \<not> parentExists [Step \<lparr>time = 10, label = None, sid = ''a''\<rparr>] ''zz''
   \<and> items (addLoop 2 ''t2'' (initialState\<lparr>items :=
         [Step \<lparr>time = 10, label = None, sid = ''a''\<rparr>], currentParentId := Some ''zz''\<rparr>))
     = [Step \<lparr>time = 10, label = None, sid = ''a''\<rparr>, Loop ''t2'' 2 [] None]"
  by (simp add: eval_defs)

section \<open>Creating a step\<close>

lemma addStep_nonpositive_noop: "totalTime st \<le> 0 \<Longrightarrow> addStep now st = st"
  by (simp add: addStep_def)

lemma addStep_zero_zero:
  "addStep now (st\<lparr>minutes := ''0'', seconds := ''0''\<rparr>)
     = st\<lparr>minutes := ''0'', seconds := ''0''\<rparr>"
  by (simp add: addStep_def totalTime_def parseIntOr_def parseInt_def digitValue_def
      isWhiteSpace_def)

text \<open>
  C9. The claim: a total duration \<open>\<le> 0\<close> makes \<^verbatim>\<open>addStep\<close> a silent no-op, and a total
  duration \<open>> 0\<close> appends a step of that duration. The first half holds
  (\<open>addStep_nonpositive_noop\<close>, \<open>addStep_zero_zero\<close>), and so does the second with no parent
  selected or an id unknown to the tree (\<open>addStep_no_parent\<close>, \<open>addStep_unknown_parent\<close>).
  Evaluated on the tree \<open>[Step a]\<close> with the selected parent id \<open>a\<close> and the inputs
  \<open>1\<close> and \<open>30\<close>: the total is \<open>90 > 0\<close>, the inputs are cleared, and the tree is still
  \<open>[Step a]\<close>; no step was appended.
\<close>

theorem addStep_positive_total_dropped:
  "totalTime (initialState\<lparr>items :=
         [Step \<lparr>time = 10, label = None, sid = ''a''\<rparr>],
         currentParentId := Some ''a'', minutes := ''1'', seconds := ''30''\<rparr>) = 90
   \<and> items (addStep ''t2'' (initialState\<lparr>items :=
         [Step \<lparr>time = 10, label = None, sid = ''a''\<rparr>],
         currentParentId := Some ''a'', minutes := ''1'', seconds := ''30''\<rparr>))
     = [Step \<lparr>time = 10, label = None, sid = ''a''\<rparr>]
   \<and> minutes (addStep ''t2'' (initialState\<lparr>items :=
         [Step \<lparr>time = 10, label = None, sid = ''a''\<rparr>],
         currentParentId := Some ''a'', minutes := ''1'', seconds := ''30''\<rparr>)) = []
   \<and> seconds (addStep ''t2'' (initialState\<lparr>items :=
         [Step \<lparr>time = 10, label = None, sid = ''a''\<rparr>],
         currentParentId := Some ''a'', minutes := ''1'', seconds := ''30''\<rparr>)) = []"
  by (simp add: eval_defs)

section \<open>Removing a unit\<close>

text \<open>
  C7. Removing an id that no unit of the tree has returns the same tree, and removing an
  id twice gives what removing it once gives; both hold for the tree function
  \<^verbatim>\<open>removeFromItems\<close> and for the handler \<^verbatim>\<open>removeItem\<close> on the whole state. The handler
  is a total function: it has no error result.
\<close>

theorem removeItem_absent_noop_idempotent:
  "(x \<notin> set (unitIds T) \<longrightarrow> removeFromItems x T = T)
   \<and> removeFromItems x (removeFromItems x T) = removeFromItems x T
   \<and> (x \<notin> set (unitIds (items st)) \<longrightarrow> items (removeItem x st) = items st)
   \<and> removeItem x (removeItem x st) = removeItem x st"
proof -
  have a: "x \<notin> set (unitIds T) \<longrightarrow> removeFromItems x T = T"
    by (simp add: remove_absent)
  have b: "x \<notin> set (unitIds (items st)) \<longrightarrow> items (removeItem x st) = items st"
    by (simp add: removeItem_def Let_def remove_absent)
  have c: "removeItem x (removeItem x st) = removeItem x st"
    by (simp add: removeItem_def Let_def remove_idem truthy_def split: option.splits)
  show ?thesis using a b c by (simp add: remove_idem)
qed

theorem removeItem_absent_noop_idempotent_witness:
  "''zz'' \<notin> set (unitIds
       [Step \<lparr>time = 30, label = None, sid = ''a''\<rparr>,
        Loop ''l'' 2 [Step \<lparr>time = 10, label = None, sid = ''b''\<rparr>] None])
   \<and> removeFromItems ''zz''
       [Step \<lparr>time = 30, label = None, sid = ''a''\<rparr>,
        Loop ''l'' 2 [Step \<lparr>time = 10, label = None, sid = ''b''\<rparr>] None]
     = [Step \<lparr>time = 30, label = None, sid = ''a''\<rparr>,
        Loop ''l'' 2 [Step \<lparr>time = 10, label = None, sid = ''b''\<rparr>] None]
   \<and> items (removeItem ''zz'' (initialState\<lparr>items :=
       [Step \<lparr>time = 30, label = None, sid = ''a''\<rparr>,
        Loop ''l'' 2 [Step \<lparr>time = 10, label = None, sid = ''b''\<rparr>] None]\<rparr>))
     = [Step \<lparr>time = 30, label = None, sid = ''a''\<rparr>,
        Loop ''l'' 2 [Step \<lparr>time = 10, label = None, sid = ''b''\<rparr>] None]"
  using removeItem_absent_noop_idempotent
    [of "''zz''"
        "[Step \<lparr>time = 30, label = None, sid = ''a''\<rparr>,
        Loop ''l'' 2 [Step \<lparr>time = 10, label = None, sid = ''b''\<rparr>] None]"
        "initialState\<lparr>items :=
       [Step \<lparr>time = 30, label = None, sid = ''a''\<rparr>,
        Loop ''l'' 2 [Step \<lparr>time = 10, label = None, sid = ''b''\<rparr>] None]\<rparr>"]
  by simp

text \<open>
  C8, as amended. Removing the unit whose id is the selected parent id resets the
  selection to none. In a tree with distinct ids, removing a loop that has the selected
  (non-empty) parent id below it resets the selection to none. Removing any other unit
  leaves the selection unchanged provided the selected id is the id of a unit of the
  tree, and leaves an empty selection empty. A selected non-empty id that no unit of the
  tree has is reset to none by every removal.
\<close>

theorem removeItem_selection:
  "(currentParentId st = Some x \<longrightarrow> currentParentId (removeItem x st) = None)
   \<and> (currentParentId st = Some p \<and> p \<noteq> [] \<and> distinct (unitIds (items st))
        \<and> hasDescendant (items st) x p
      \<longrightarrow> currentParentId (removeItem x st) = None)
   \<and> (currentParentId st = Some p \<and> p \<noteq> x \<and> p \<in> set (unitIds (items st))
        \<and> \<not> hasDescendant (items st) x p
      \<longrightarrow> currentParentId (removeItem x st) = Some p)
   \<and> (currentParentId st = None \<longrightarrow> currentParentId (removeItem x st) = None)
   \<and> (currentParentId st = Some p \<and> p \<noteq> [] \<and> p \<notin> set (unitIds (items st))
      \<longrightarrow> currentParentId (removeItem x st) = None)"
proof -
  have stale: "p \<notin> set (unitIds (items st))
                 \<Longrightarrow> p \<notin> set (unitIds (removeFromItems x (items st)))"
    using unitIds_remove_subset [of x "items st"] by auto
  show ?thesis
    using remove_ancestor [of "items st" x p] remove_other [of p "items st" x] stale
    by (auto simp: removeItem_def Let_def truthy_def parentExists_iff)
qed

theorem removeItem_selection_witness:
  "currentParentId (removeItem ''P'' (initialState\<lparr>items :=
       [Loop ''L'' 2 [Loop ''P'' 3 [] None] None,
        Step \<lparr>time = 30, label = None, sid = ''q''\<rparr>],
       currentParentId := Some ''P''\<rparr>)) = None
   \<and> distinct (unitIds [Loop ''L'' 2 [Loop ''P'' 3 [] None] None,
        Step \<lparr>time = 30, label = None, sid = ''q''\<rparr>])
   \<and> hasDescendant [Loop ''L'' 2 [Loop ''P'' 3 [] None] None,
        Step \<lparr>time = 30, label = None, sid = ''q''\<rparr>] ''L'' ''P''
   \<and> currentParentId (removeItem ''L'' (initialState\<lparr>items :=
       [Loop ''L'' 2 [Loop ''P'' 3 [] None] None,
        Step \<lparr>time = 30, label = None, sid = ''q''\<rparr>],
       currentParentId := Some ''P''\<rparr>)) = None
   \<and> ''P'' \<in> set (unitIds [Loop ''L'' 2 [Loop ''P'' 3 [] None] None,
        Step \<lparr>time = 30, label = None, sid = ''q''\<rparr>])
   \<and> \<not> hasDescendant [Loop ''L'' 2 [Loop ''P'' 3 [] None] None,
        Step \<lparr>time = 30, label = None, sid = ''q''\<rparr>] ''q'' ''P''
   \<and> currentParentId (removeItem ''q'' (initialState\<lparr>items :=
       [Loop ''L'' 2 [Loop ''P'' 3 [] None] None,
        Step \<lparr>time = 30, label = None, sid = ''q''\<rparr>],
       currentParentId := Some ''P''\<rparr>)) = Some ''P''
   \<and> currentParentId (removeItem ''q'' (initialState\<lparr>items :=
       [Step \<lparr>time = 30, label = None, sid = ''q''\<rparr>]\<rparr>)) = None
   \<and> ''ghost'' \<notin> set (unitIds [Step \<lparr>time = 30, label = None, sid = ''q''\<rparr>])
   \<and> currentParentId (removeItem ''zz'' (initialState\<lparr>items :=
         [Step \<lparr>time = 30, label = None, sid = ''q''\<rparr>],
         currentParentId := Some ''ghost''\<rparr>)) = None"
  using removeItem_selection
    [of "(initialState\<lparr>items :=
       [Loop ''L'' 2 [Loop ''P'' 3 [] None] None,
        Step \<lparr>time = 30, label = None, sid = ''q''\<rparr>],
       currentParentId := Some ''P''\<rparr>)" "''P''" "''P''"]
    removeItem_selection
    [of "(initialState\<lparr>items :=
       [Loop ''L'' 2 [Loop ''P'' 3 [] None] None,
        Step \<lparr>time = 30, label = None, sid = ''q''\<rparr>],
       currentParentId := Some ''P''\<rparr>)" "''L''" "''P''"]
    removeItem_selection
    [of "(initialState\<lparr>items :=
       [Loop ''L'' 2 [Loop ''P'' 3 [] None] None,
        Step \<lparr>time = 30, label = None, sid = ''q''\<rparr>],
       currentParentId := Some ''P''\<rparr>)" "''q''" "''P''"]
    removeItem_selection
    [of "initialState\<lparr>items :=
       [Step \<lparr>time = 30, label = None, sid = ''q''\<rparr>]\<rparr>" "''q''" "''P''"]
    removeItem_selection
    [of "(initialState\<lparr>items :=
         [Step \<lparr>time = 30, label = None, sid = ''q''\<rparr>],
         currentParentId := Some ''ghost''\<rparr>)" "''zz''" "''ghost''"]
  by (simp add: initialState_def)

text \<open>
  The claim as stated fails: with the tree \<open>[Step q]\<close> and the selected id \<open>ghost\<close>,
  which no unit has, removing \<open>q\<close> (not the selected parent, and with nothing below it)
  resets the selection.
\<close>

theorem removeItem_selection_counterexample:
  "''q'' \<noteq> ''ghost''
   \<and> \<not> hasDescendant [Step \<lparr>time = 30, label = None, sid = ''q''\<rparr>] ''q'' ''ghost''
   \<and> currentParentId (initialState\<lparr>items :=
         [Step \<lparr>time = 30, label = None, sid = ''q''\<rparr>],
         currentParentId := Some ''ghost''\<rparr>) = Some ''ghost''
   \<and> currentParentId (removeItem ''q'' (initialState\<lparr>items :=
         [Step \<lparr>time = 30, label = None, sid = ''q''\<rparr>],
         currentParentId := Some ''ghost''\<rparr>)) = None"
  by (simp add: removeItem_def removeFromItems_Nil removeFromItems_Cons truthy_def)

section \<open>Playback: start, and the index invariant\<close>

text \<open>
  C2, as amended. With a non-empty flattened list, in particular when paused at any
  index \<open>i\<close>, the start operation sets the running flag, sets the index to \<open>0\<close> (so the
  index is kept only when \<open>i = 0\<close>) and triggers the audio cue once; nothing else of the
  state changes.
\<close>

theorem startSequence_restarts:
  assumes "flattenedSequence st \<noteq> []"
  shows "startSequence st
           = (st\<lparr>currentStepIndex := 0, isTimerPlaying := True\<rparr>, [PlayBeep])"
  using assms by (simp add: startSequence_def)

theorem startSequence_restarts_witness:
  "flattenedSequence (initialState\<lparr>items :=
         [Step \<lparr>time = 60, label = None, sid = ''t1''\<rparr>,
          Step \<lparr>time = 5, label = None, sid = ''t2''\<rparr>],
       flattenedSequence :=
         [\<lparr>time = 60, label = None, sid = ''t1''\<rparr>,
          \<lparr>time = 5, label = None, sid = ''t2''\<rparr>],
       currentStepIndex := 1\<rparr>) \<noteq> []
   \<and> \<not> isTimerPlaying (initialState\<lparr>items :=
         [Step \<lparr>time = 60, label = None, sid = ''t1''\<rparr>,
          Step \<lparr>time = 5, label = None, sid = ''t2''\<rparr>],
       flattenedSequence :=
         [\<lparr>time = 60, label = None, sid = ''t1''\<rparr>,
          \<lparr>time = 5, label = None, sid = ''t2''\<rparr>],
       currentStepIndex := 1\<rparr>)
   \<and> startSequence (initialState\<lparr>items :=
         [Step \<lparr>time = 60, label = None, sid = ''t1''\<rparr>,
          Step \<lparr>time = 5, label = None, sid = ''t2''\<rparr>],
       flattenedSequence :=
         [\<lparr>time = 60, label = None, sid = ''t1''\<rparr>,
          \<lparr>time = 5, label = None, sid = ''t2''\<rparr>],
       currentStepIndex := 1\<rparr>)
     = ((initialState\<lparr>items :=
         [Step \<lparr>time = 60, label = None, sid = ''t1''\<rparr>,
          Step \<lparr>time = 5, label = None, sid = ''t2''\<rparr>],
       flattenedSequence :=
         [\<lparr>time = 60, label = None, sid = ''t1''\<rparr>,
          \<lparr>time = 5, label = None, sid = ''t2''\<rparr>],
       currentStepIndex := 1\<rparr>)\<lparr>currentStepIndex := 0, isTimerPlaying := True\<rparr>, [PlayBeep])"
  using startSequence_restarts
    [of "(initialState\<lparr>items :=
         [Step \<lparr>time = 60, label = None, sid = ''t1''\<rparr>,
          Step \<lparr>time = 5, label = None, sid = ''t2''\<rparr>],
       flattenedSequence :=
         [\<lparr>time = 60, label = None, sid = ''t1''\<rparr>,
          \<lparr>time = 5, label = None, sid = ''t2''\<rparr>],
       currentStepIndex := 1\<rparr>)"]
  by (simp add: initialState_def)

text \<open>
  The claim as stated fails: after two steps are added, the sequence is started, the
  first step completes and Pause is pressed, the machine is paused at index \<open>1\<close> of a
  list of length \<open>2\<close>; the start operation then puts the index at \<open>0\<close> and triggers the
  cue.
\<close>

theorem resume_resets_index_and_beeps:
  "\<not> isTimerPlaying (run [ChangeMinutes ''1'', PressAdd ''t1'', ChangeSeconds ''5'', PressAdd ''t2'',
          ItemsChanged, PressStart, TimerComplete, PressPause] initialState)
   \<and> currentStepIndex (run [ChangeMinutes ''1'', PressAdd ''t1'', ChangeSeconds ''5'', PressAdd ''t2'',
          ItemsChanged, PressStart, TimerComplete, PressPause] initialState) = 1
   \<and> length (flattenedSequence (run [ChangeMinutes ''1'', PressAdd ''t1'', ChangeSeconds ''5'', PressAdd ''t2'',
          ItemsChanged, PressStart, TimerComplete, PressPause] initialState)) = 2
   \<and> currentStepIndex (fst (startSequence (run [ChangeMinutes ''1'', PressAdd ''t1'', ChangeSeconds ''5'', PressAdd ''t2'',
          ItemsChanged, PressStart, TimerComplete, PressPause] initialState))) = 0
   \<and> snd (startSequence (run [ChangeMinutes ''1'', PressAdd ''t1'', ChangeSeconds ''5'', PressAdd ''t2'',
          ItemsChanged, PressStart, TimerComplete, PressPause] initialState)) = [PlayBeep]"
  by (simp add: eval_defs)

lemma flattenSequence_append:
  "flattenSequence (A @ B) = flattenSequence A @ flattenSequence B"
  by (induction A) (simp_all add: flattenSequence_Nil flattenSequence_Cons)

lemma length_flatten_snoc:
  "length (flattenSequence T) \<le> length (flattenSequence (T @ [v]))"
  by (simp add: flattenSequence_append)

lemma length_flatten_update:
  "length (flattenSequence T) \<le> length (flattenSequence (updateItems p v T))"
proof (induction T rule: unitIds.induct)
  case 1
  then show ?case by (simp add: updateItems_Nil)
next
  case (2 s T)
  then show ?case by (simp add: updateItems_Cons flattenSequence_Cons)
next
  case (3 i r c l T)
  have "nat r * length (flattenSequence c) \<le> nat r * length (flattenSequence (c @ [v]))"
    by (rule mult_le_mono2) (rule length_flatten_snoc)
  moreover have "nat r * length (flattenSequence c)
                   \<le> nat r * length (flattenSequence (updateItems p v c))"
    by (rule mult_le_mono2) (rule "3.IH")
  ultimately show ?case
    using "3.IH"(2)
    by (simp add: updateItems_Cons flattenSequence_Cons length_concat_replicate add_mono)
qed

lemma length_flatten_insert:
  "length (flattenSequence T)
     \<le> length (flattenSequence
          (if truthy cp \<and> \<not> parentExists T (the cp) then T @ [v]
           else addStepToParent cp v T))"
  by (simp add: addStepToParent_def length_flatten_snoc length_flatten_update)

lemma playbackInv_initial: "playbackInv initialState"
  by (simp add: playbackInv_def indexInRange_def initialState_def flattenSequence_Nil)

lemma playbackInv_addStep: "playbackInv st \<Longrightarrow> playbackInv (addStep now st)"
  using length_flatten_insert
    [of "items st" "currentParentId st" "Step \<lparr>time = totalTime st, label = None, sid = now\<rparr>"]
  by (auto simp: playbackInv_def indexInRange_def addStep_def Let_def)

lemma playbackInv_addLoop: "playbackInv st \<Longrightarrow> playbackInv (addLoop r now st)"
  using length_flatten_insert [of "items st" "currentParentId st" "Loop now r [] None"]
  by (auto simp: playbackInv_def indexInRange_def addLoop_def Let_def)

lemma playbackInv_flattenEffect: "playbackInv st \<Longrightarrow> playbackInv (flattenEffect st)"
  by (auto simp: playbackInv_def indexInRange_def flattenEffect_def split: if_splits)

lemma playbackInv_startSequence: "playbackInv st \<Longrightarrow> playbackInv (fst (startSequence st))"
  by (auto simp: playbackInv_def indexInRange_def startSequence_def)

lemma playbackInv_handleComplete: "playbackInv st \<Longrightarrow> playbackInv (fst (handleComplete st))"
  by (auto simp: playbackInv_def indexInRange_def handleComplete_def resetTimer_def)

lemma playbackInv_resetTimer: "playbackInv st \<Longrightarrow> playbackInv (resetTimer st)"
  by (auto simp: playbackInv_def indexInRange_def resetTimer_def)

lemma playbackInv_dispatch:
  "\<not> isRemoval e \<Longrightarrow> playbackInv st \<Longrightarrow> playbackInv (dispatch e st)"
proof (cases e)
  case (PressAdd now)
  then show "playbackInv st \<Longrightarrow> ?thesis" by (simp add: playbackInv_addStep)
next
  case (PressCreateLoop now)
  then show "playbackInv st \<Longrightarrow> ?thesis" by (simp add: playbackInv_addLoop)
next
  case ItemsChanged
  then show "playbackInv st \<Longrightarrow> ?thesis" by (simp add: playbackInv_flattenEffect)
next
  case PressStart
  then show "playbackInv st \<Longrightarrow> ?thesis" by (simp add: playbackInv_startSequence)
next
  case PressReset
  then show "playbackInv st \<Longrightarrow> ?thesis" by (simp add: playbackInv_resetTimer)
next
  case TimerComplete
  then show "playbackInv st \<Longrightarrow> ?thesis" by (simp add: playbackInv_handleComplete)
qed (auto simp: playbackInv_def indexInRange_def openLoopModal_def pausePressed_def)

lemma playbackInv_run:
  "playbackInv st \<Longrightarrow> \<forall>e\<in>set evs. \<not> isRemoval e \<Longrightarrow> playbackInv (run evs st)"
  by (induction evs arbitrary: st) (simp_all add: playbackInv_dispatch)

lemma removal_in_range_iff:
  "indexInRange (flattenEffect (removeItem x st)) = keepsIndex (PressRemove x) st"
  by (auto simp: indexInRange_def flattenEffect_def removeItem_def Let_def)

lemma removeItem_frame:
  "currentStepIndex (removeItem x st) = currentStepIndex st
   \<and> isTimerPlaying (removeItem x st) = isTimerPlaying st
   \<and> flattenedSequence (removeItem x st) = flattenedSequence st"
  by (simp add: removeItem_def Let_def)

lemma indexInRange_effect_step:
  assumes "keepsIndex e st" and "indexInRange st"
    and "flattenedSequence st = flattenSequence (items st)"
  shows "indexInRange (flattenEffect (dispatch e st))"
proof (cases "isRemoval e")
  case True
  then obtain x where "e = PressRemove x" by (cases e) simp_all
  with assms(1) show ?thesis by (simp add: removal_in_range_iff)
next
  case False
  from assms(2,3) have "playbackInv st" by (simp add: playbackInv_def)
  with False have "playbackInv (dispatch e st)" by (rule playbackInv_dispatch)
  then have "playbackInv (flattenEffect (dispatch e st))" by (rule playbackInv_flattenEffect)
  then show ?thesis by (simp add: playbackInv_def)
qed

lemma indexInRange_runEffects:
  "admissible evs st \<Longrightarrow> indexInRange st
     \<Longrightarrow> flattenedSequence st = flattenSequence (items st)
     \<Longrightarrow> indexInRange (runEffects evs st)"
proof (induction evs arbitrary: st)
  case Nil
  then show ?case by simp
next
  case (Cons e es)
  have "indexInRange (flattenEffect (dispatch e st))"
    using Cons.prems by (simp add: indexInRange_effect_step)
  moreover have "flattenedSequence (flattenEffect (dispatch e st))
                   = flattenSequence (items (flattenEffect (dispatch e st)))"
    by (simp add: flattenEffect_def)
  ultimately show ?case using Cons.IH Cons.prems(1) by simp
qed

lemma keepsIndex_other: "\<not> isRemoval e \<Longrightarrow> keepsIndex e st"
  by (cases e) simp_all

lemma admissible_without_removal:
  "\<forall>e\<in>set evs. \<not> isRemoval e \<Longrightarrow> admissible evs st"
  by (induction evs arbitrary: st) (simp_all add: keepsIndex_other)

text \<open>
  C3, as amended. In every state reached from the initial state by a sequence of editor
  operations (\<^verbatim>\<open>addStep\<close>, \<^verbatim>\<open>addLoop\<close>, \<^verbatim>\<open>removeItem\<close>, with typing and parent selection)
  and playback events (start, pause, reset, step-complete), each followed by the
  recomputation of the flattened list, the index is below the length of the flattened
  list when the list is non-empty and is \<open>0\<close> when it is empty, provided every
  \<^verbatim>\<open>removeItem\<close> is pressed while the index is \<open>0\<close> or leaves the index below the length
  of the recomputed list. Every run without a removal meets the proviso. The proviso is
  exact: \<^verbatim>\<open>removeItem\<close> never changes the index, and after a removal and the
  recomputation the index is in range if and only if the removal met the proviso.
\<close>

theorem index_in_range_guarded_removal:
  "(admissible evs initialState \<longrightarrow> indexInRange (runEffects evs initialState))
   \<and> ((\<forall>e\<in>set evs. \<not> isRemoval e) \<longrightarrow> admissible evs st)
   \<and> indexInRange (flattenEffect (removeItem x st)) = keepsIndex (PressRemove x) st
   \<and> currentStepIndex (removeItem x st) = currentStepIndex st"
proof -
  have a: "admissible evs initialState \<longrightarrow> indexInRange (runEffects evs initialState)"
    using indexInRange_runEffects [of evs initialState]
    by (simp add: indexInRange_def initialState_def flattenSequence_Nil)
  show ?thesis
    using a admissible_without_removal [of evs st]
    by (simp add: removal_in_range_iff removeItem_frame)
qed

theorem index_in_range_guarded_removal_witness:
  "admissible [ChangeMinutes ''1'', PressAdd ''t1'', ChangeSeconds ''5'', PressAdd ''t2'',
          ChangeSeconds ''7'', PressAdd ''t3'', PressStart, TimerComplete,
          PressRemove ''t3''] initialState
   \<and> currentStepIndex (runEffects [ChangeMinutes ''1'', PressAdd ''t1'', ChangeSeconds ''5'', PressAdd ''t2'',
          ChangeSeconds ''7'', PressAdd ''t3'', PressStart, TimerComplete,
          PressRemove ''t3''] initialState) = 1
   \<and> length (flattenedSequence (runEffects [ChangeMinutes ''1'', PressAdd ''t1'', ChangeSeconds ''5'', PressAdd ''t2'',
          ChangeSeconds ''7'', PressAdd ''t3'', PressStart, TimerComplete,
          PressRemove ''t3''] initialState)) = 2
   \<and> indexInRange (runEffects [ChangeMinutes ''1'', PressAdd ''t1'', ChangeSeconds ''5'', PressAdd ''t2'',
          ChangeSeconds ''7'', PressAdd ''t3'', PressStart, TimerComplete,
          PressRemove ''t3''] initialState)
   \<and> filter isRemoval [ChangeMinutes ''1'', PressAdd ''t1'', PressStart, TimerComplete] = []
   \<and> admissible [ChangeMinutes ''1'', PressAdd ''t1'', PressStart, TimerComplete] initialState"
  using index_in_range_guarded_removal
    [of "[ChangeMinutes ''1'', PressAdd ''t1'', ChangeSeconds ''5'', PressAdd ''t2'',
          ChangeSeconds ''7'', PressAdd ''t3'', PressStart, TimerComplete,
          PressRemove ''t3'']" initialState "''t3''"]
    index_in_range_guarded_removal
    [of "[ChangeMinutes ''1'', PressAdd ''t1'', PressStart, TimerComplete]" initialState "''t3''"]
  by (simp add: eval_defs)

text \<open>
  The claim as stated fails: two steps are added, the sequence is started and the first
  step completes (index \<open>1\<close>); then the second step is removed and the flattened list is
  recomputed. The list has length \<open>1\<close> and the index is still \<open>1\<close>. The same holds when
  the recomputation follows every event; that removal does not meet the proviso.
\<close>

theorem index_out_of_range_after_removal:
  "flattenedSequence (run [ChangeMinutes ''1'', PressAdd ''t1'', ChangeSeconds ''5'', PressAdd ''t2'',
          ItemsChanged, PressStart, TimerComplete,
          PressRemove ''t2'', ItemsChanged] initialState)
     = [\<lparr>time = 60, label = None, sid = ''t1''\<rparr>]
   \<and> currentStepIndex (run [ChangeMinutes ''1'', PressAdd ''t1'', ChangeSeconds ''5'', PressAdd ''t2'',
          ItemsChanged, PressStart, TimerComplete,
          PressRemove ''t2'', ItemsChanged] initialState) = 1
   \<and> \<not> indexInRange (run [ChangeMinutes ''1'', PressAdd ''t1'', ChangeSeconds ''5'', PressAdd ''t2'',
          ItemsChanged, PressStart, TimerComplete,
          PressRemove ''t2'', ItemsChanged] initialState)
   \<and> \<not> indexInRange (runEffects [ChangeMinutes ''1'', PressAdd ''t1'', ChangeSeconds ''5'',
          PressAdd ''t2'', PressStart, TimerComplete, PressRemove ''t2''] initialState)
   \<and> \<not> admissible [ChangeMinutes ''1'', PressAdd ''t1'', ChangeSeconds ''5'',
          PressAdd ''t2'', PressStart, TimerComplete, PressRemove ''t2''] initialState"
  by (simp add: eval_defs)

section \<open>Loading the working sequence\<close>

text \<open>
  What \<^verbatim>\<open>loadSequence\<close> does, by the shape of the stored value. With a stored text that
  parses to a bare array it sets the items to the array's elements, each rebuilt as an
  object with \<open>type = "step"\<close> followed by the element's own fields; an object whose
  \<open>items\<close> is an array has that array taken as it is, unchecked. A text that does not
  parse, an object without an array under \<open>items\<close>, and a value that is neither an array
  nor an object end in the alert of the \<^verbatim>\<open>catch\<close> block with no call of \<^verbatim>\<open>setItems\<close>,
  as does a failing read of the store; an absent or empty stored text does nothing.
\<close>

lemma loadSequence_cases:
  \<open>(truthy jsonValue \<longrightarrow>
       loadSequence (Returns jsonValue) (Returns (JArr xs)) = [SetItems (map tagStep xs)])
   \<and> tagStep (JObj m) = JObj ([''type'' \<mapsto> JStr ''step''] ++ m)
   \<and> loadSequence (Returns (Some ''[{"time":20,"id":"a"}]''))
        (Returns (JArr [JObj [''time'' \<mapsto> JNum 20, ''id'' \<mapsto> JStr ''a'']]))
      = [SetItems [JObj [''type'' \<mapsto> JStr ''step'', ''time'' \<mapsto> JNum 20,
                         ''id'' \<mapsto> JStr ''a'']]]
   \<and> (truthy jsonValue \<and> m ''items'' = Some (JArr xs) \<longrightarrow>
       loadSequence (Returns jsonValue) (Returns (JObj m)) = [SetItems xs])
   \<and> (truthy jsonValue \<and> (\<forall>ys. m ''items'' \<noteq> Some (JArr ys)) \<longrightarrow>
       loadSequence (Returns jsonValue) (Returns (JObj m)) = [AlertLoadError])
   \<and> (truthy jsonValue \<and> (\<forall>ys. parsed \<noteq> JArr ys) \<and> (\<forall>n. parsed \<noteq> JObj n) \<longrightarrow>
       loadSequence (Returns jsonValue) (Returns parsed) = [AlertLoadError])
   \<and> (truthy jsonValue \<longrightarrow> loadSequence (Returns jsonValue) Throws = [AlertLoadError])
   \<and> loadSequence Throws parseResult = [AlertLoadError]
   \<and> (\<not> truthy jsonValue \<longrightarrow> loadSequence (Returns jsonValue) parseResult = [])\<close>
proof -
  have obj: "truthy jsonValue \<and> (\<forall>ys. m ''items'' \<noteq> Some (JArr ys)) \<longrightarrow>
       loadSequence (Returns jsonValue) (Returns (JObj m)) = [AlertLoadError]"
    by (auto simp: loadSequence_def split: option.splits json.splits)
  have other: "truthy jsonValue \<and> (\<forall>ys. parsed \<noteq> JArr ys) \<and> (\<forall>n. parsed \<noteq> JObj n) \<longrightarrow>
       loadSequence (Returns jsonValue) (Returns parsed) = [AlertLoadError]"
    by (cases parsed) (simp_all add: loadSequence_def)
  show ?thesis
    using obj other by (simp add: loadSequence_def tagStep_def truthy_def)
qed

text \<open>
  C6. The claim: \<^verbatim>\<open>loadSequence\<close> migrates a bare array and also a payload with a
  \<open>steps\<close> field and no \<open>items\<close> field, and malformed data ends in the load-failure
  notice with the tree unchanged. The bare array is migrated (\<open>loadSequence_cases\<close>).
  Evaluated on the stored object \<open>{steps: [{time:20, id:"a"}]}\<close>: no \<open>items\<close> field is
  found, \<^verbatim>\<open>parsed.map\<close> is not a function, and the load ends in the alert with no items
  set; the payload is not migrated, although the library loader of the same file (lines
  1019-1031) migrates exactly this shape. Evaluated on the stored array
  \<open>[{type:"loop"}]\<close> and on the stored object \<open>{items:[null]}\<close>, neither of which holds
  a well-formed unit: \<^verbatim>\<open>setItems\<close> is called with the malformed values and no alert is
  raised.
\<close>

theorem loadSequence_steps_field_not_migrated:
  \<open>[''steps'' \<mapsto> JArr [JObj [''time'' \<mapsto> JNum 20, ''id'' \<mapsto> JStr ''a'']]] ''items'' = None
   \<and> loadSequence (Returns (Some ''{"steps":[{"time":20,"id":"a"}]}''))
        (Returns (JObj [''steps'' \<mapsto> JArr [JObj [''time'' \<mapsto> JNum 20, ''id'' \<mapsto> JStr ''a'']]]))
      = [AlertLoadError]
   \<and> loadSequence (Returns (Some ''{"steps":[{"time":20,"id":"a"}]}''))
        (Returns (JObj [''steps'' \<mapsto> JArr [JObj [''time'' \<mapsto> JNum 20, ''id'' \<mapsto> JStr ''a'']]]))
      \<noteq> [SetItems (map tagStep [JObj [''time'' \<mapsto> JNum 20, ''id'' \<mapsto> JStr ''a'']])]
   \<and> loadSequence (Returns (Some ''[{"type":"loop"}]''))
        (Returns (JArr [JObj [''type'' \<mapsto> JStr ''loop'']]))
      = [SetItems [JObj [''type'' \<mapsto> JStr ''loop'']]]
   \<and> loadSequence (Returns (Some ''{"items":[null]}''))
        (Returns (JObj [''items'' \<mapsto> JArr [JNull]]))
      = [SetItems [JNull]]\<close>
  by (simp add: loadSequence_def truthy_def tagStep_def)

end
